theory Spec2Isabelle
  imports Main
begin

section \<open>The goflet uploader of PicGo-Core (src/plugins/uploader/goflet.ts)\<close>

text \<open>
  The uploader signs one JWT per operation, posts each image of a batch to the
  gateway and, on a 201 response, replaces the image's local payload by a signed
  retrieval URL. The embedding below follows \<^verbatim>\<open>goflet.ts\<close> function by
  function. JavaScript strings are \<open>string\<close>; the primitives the file imports from
  the platform and the host (the clock, \<^verbatim>\<open>jwt.sign\<close>, \<^verbatim>\<open>ctx.request\<close>,
  \<^verbatim>\<open>path.join\<close>, \<^verbatim>\<open>URLSearchParams\<close> parsing and printing, \<^verbatim>\<open>URL\<close>,
  \<^verbatim>\<open>JSON.parse\<close>, \<^verbatim>\<open>mime.lookup\<close>, \<^verbatim>\<open>Buffer.from\<close>, the message
  catalogue) are parameters collected in one record. Every effect (a clock read, a
  call of the signing primitive, a call of the transport) is appended to a history,
  and the answer of an effectful primitive may depend on the position in that
  history.
\<close>

subsection \<open>Data\<close>

type_synonym bytes = "nat list"

text \<open>\<^verbatim>\<open>IGofletConfig\<close>, the fields the uploader reads.\<close>

record gofletConfig =
  endpoint :: string
  path :: string
  jwtSecret :: string
  jwtAlgorithm :: string
  jwtIssuer :: string
  defaultOptions :: string

text \<open>
  An entry of \<^verbatim>\<open>ctx.output\<close>. Every field is optional in the source; a deleted
  or missing field is \<open>None\<close>.
\<close>

record imgInfo =
  fileName :: "string option"
  buffer :: "bytes option"
  base64Image :: "string option"
  imgUrl :: "string option"

text \<open>
  The permission entry and the token payload built by \<^verbatim>\<open>generateJWT\<close>. The
  \<^verbatim>\<open>query\<close> object is kept as the list of its own properties, each key once; it
  is read as a mapping with \<open>map_of\<close>.
\<close>

record permission =
  perm_path :: string
  methods :: "string list"
  query :: "(string \<times> string) list option"

record jwtPayload =
  iss :: string
  iat :: int
  nbf :: int
  permissions :: "permission list"

record jwtHeader =
  alg :: string
  hdr_typ :: string

record signOptions =
  header :: jwtHeader
  algorithm :: string

text \<open>Values of \<^verbatim>\<open>JSON.parse\<close>; an object lists its own properties, each key once.\<close>

datatype json =
  JNull | JBool bool | JNum int | JStr string | JArr "json list" | JObj "(string \<times> json) list"

text \<open>
  What a \<^verbatim>\<open>throw\<close> carries: \<open>Error m\<close> is \<^verbatim>\<open>new Error(m)\<close> for a string,
  \<open>ErrorOf v\<close> is \<^verbatim>\<open>new Error(v)\<close> for a parsed value that is not a string.
\<close>

datatype thrown = Error string | ErrorOf json | SyntaxError | TypeError | Rejected string

text \<open>
  A response of the transport. Its body is a string, or the object
  \<^verbatim>\<open>{ msg, err }\<close> that the uploader makes up when the transport rejects.
\<close>

datatype body = BodyString string | BodyObject string thrown

record response =
  statusCode :: int
  body :: body

text \<open>The request descriptor returned by \<^verbatim>\<open>postOptions\<close>.\<close>

record reqHeaders =
  Host :: string
  Authorization :: string
  contentType :: string
  User_Agent :: string

record formFile =
  file_value :: "bytes option"
  file_filename :: string
  file_contentType :: "string option"

record reqOptions =
  req_method :: string
  url :: string
  headers :: reqHeaders
  formData_file :: formFile
  resolveWithFullResponse :: bool

datatype localesKey = AUTH_FAILED | SERVER_ERROR

text \<open>The history of effects, oldest first.\<close>

datatype event =
  DateNow
  | JwtSign jwtPayload string signOptions
  | CtxRequest reqOptions

type_synonym world = "event list"

text \<open>
  The imported primitives. \<open>date_now k\<close> is what \<^verbatim>\<open>Date.now()\<close> returns as the
  \<open>k\<close>-th effect of the run (milliseconds); \<open>jwt_sign\<close> returns \<open>None\<close> when
  \<^verbatim>\<open>jwt.sign\<close> throws; \<open>ctx_request\<close> returns \<open>Inl err\<close> when the promise of
  \<^verbatim>\<open>ctx.request\<close> rejects; \<open>url_hostname\<close> is \<open>None\<close> when \<^verbatim>\<open>new URL\<close>
  throws; \<open>JSON_parse\<close> is \<open>None\<close> when \<^verbatim>\<open>JSON.parse\<close> throws;
  \<open>mime_lookup\<close> is \<open>None\<close> for \<^verbatim>\<open>false\<close>.
\<close>

record env =
  date_now :: "nat \<Rightarrow> int"
  jwt_sign :: "nat \<Rightarrow> jwtPayload \<Rightarrow> string \<Rightarrow> signOptions \<Rightarrow> string option"
  ctx_request :: "nat \<Rightarrow> reqOptions \<Rightarrow> thrown + response"
  translate :: "localesKey \<Rightarrow> string"
  path_join :: "string list \<Rightarrow> string"
  usp_parse :: "string \<Rightarrow> (string \<times> string) list"
  usp_toString :: "(string \<times> string) list \<Rightarrow> string"
  url_hostname :: "string \<Rightarrow> string option"
  mime_lookup :: "string \<Rightarrow> string option"
  JSON_parse :: "string \<Rightarrow> json option"
  base64_decode :: "string \<Rightarrow> bytes"

text \<open>\<^verbatim>\<open>ctx\<close>: the configuration stored under \<^verbatim>\<open>picBed.goflet\<close> and the batch.\<close>

record picgo =
  getConfig :: "gofletConfig option"
  ctx_output :: "imgInfo list"

subsection \<open>String helpers\<close>

text \<open>\<^verbatim>\<open>s.replace(/\\/g, '/')\<close>\<close>

definition replaceBackslashes :: "string \<Rightarrow> string" where
  "replaceBackslashes s = map (\<lambda>c. if c = CHR 0x5C then CHR ''/'' else c) s"

text \<open>\<^verbatim>\<open>s.replace(/^\//, '')\<close>: at most one leading slash goes.\<close>

fun stripLeadingSlash :: "string \<Rightarrow> string" where
  "stripLeadingSlash [] = []"
| "stripLeadingSlash (c # cs) = (if c = CHR ''/'' then cs else c # cs)"

text \<open>\<^verbatim>\<open>s.replace(/\/$/, '')\<close>: at most one trailing slash goes.\<close>

definition stripTrailingSlash :: "string \<Rightarrow> string" where
  "stripTrailingSlash s = (if s = [] then [] else if last s = CHR ''/'' then butlast s else s)"

text \<open>Line 77 of \<^verbatim>\<open>handle\<close>: the base path used in the retrieval URL.\<close>

definition canonicalBasePath :: "string \<Rightarrow> string" where
  "canonicalBasePath p = stripTrailingSlash (stripLeadingSlash (replaceBackslashes p))"

text \<open>
  An array index is the decimal numeral, without leading zeros, of a number below
  \<open>2^32 - 1\<close>. An object lists its own properties with the array indices first, in
  ascending order, and the other names after them in the order of their creation.
\<close>

definition digitValue :: "char \<Rightarrow> int option" where
  "digitValue c = map_of (zip ''0123456789'' [0, 1, 2, 3, 4, 5, 6, 7, 8, 9]) c"

fun decimalValue :: "int \<Rightarrow> string \<Rightarrow> int option" where
  "decimalValue acc [] = Some acc"
| "decimalValue acc (c # cs) =
     (case digitValue c of
        None \<Rightarrow> None
      | Some d \<Rightarrow> decimalValue (10 * acc + d) cs)"

definition arrayIndex :: "string \<Rightarrow> int option" where
  "arrayIndex k =
     (if k = [] then None
      else if k = ''0'' then Some 0
      else if take 1 k = ''0'' then None
      else (case decimalValue 0 k of
              None \<Rightarrow> None
            | Some n \<Rightarrow> (if n < 4294967295 then Some n else None)))"

text \<open>A new property named by the array index \<open>n\<close> goes before the first property
  that is not an array index or is a larger one.\<close>

fun insertIndexed ::
  "int \<Rightarrow> string \<Rightarrow> string \<Rightarrow> (string \<times> string) list \<Rightarrow> (string \<times> string) list" where
  "insertIndexed n k v [] = [(k, v)]"
| "insertIndexed n k v (p # ps) =
     (case arrayIndex (fst p) of
        None \<Rightarrow> (k, v) # p # ps
      | Some m \<Rightarrow> (if n < m then (k, v) # p # ps else p # insertIndexed n k v ps))"

text \<open>An existing property keeps its place and takes the new value.\<close>

fun replaceValue :: "string \<Rightarrow> string \<Rightarrow> (string \<times> string) list \<Rightarrow> (string \<times> string) list" where
  "replaceValue k v [] = []"
| "replaceValue k v (p # ps) = (if fst p = k then (k, v) # ps else p # replaceValue k v ps)"

text \<open>
  \<^verbatim>\<open>queryMap[key] = value\<close> on the list of own properties of an object made by
  \<^verbatim>\<open>{}\<close>, for a string value. The name \<^verbatim>\<open>__proto__\<close> is an accessor inherited
  from \<^verbatim>\<open>Object.prototype\<close> whose setter ignores a string: the assignment creates
  no property. Every other name becomes or stays an own property.
\<close>

definition obj_set :: "string \<Rightarrow> string \<Rightarrow> (string \<times> string) list \<Rightarrow> (string \<times> string) list" where
  "obj_set k v m =
     (if k = ''__proto__'' then m
      else if k \<in> set (map fst m) then replaceValue k v m
      else (case arrayIndex k of
              None \<Rightarrow> m @ [(k, v)]
            | Some n \<Rightarrow> insertIndexed n k v m))"

text \<open>The \<^verbatim>\<open>forEach\<close> of lines 28 to 30, started on the empty object.\<close>

definition queryMapOf :: "(string \<times> string) list \<Rightarrow> (string \<times> string) list" where
  "queryMapOf params = foldl (\<lambda>m kv. obj_set (fst kv) (snd kv) m) [] params"

text \<open>
  \<^verbatim>\<open>URLSearchParams.prototype.set\<close> of the platform: the first pair named \<open>k\<close>
  takes the value and every later pair named \<open>k\<close> is removed; without such a pair
  the new pair is appended.
\<close>

fun usp_set :: "string \<Rightarrow> string \<Rightarrow> (string \<times> string) list \<Rightarrow> (string \<times> string) list" where
  "usp_set k v [] = [(k, v)]"
| "usp_set k v (p # ps) =
     (if fst p = k then (k, v) # filter (\<lambda>q. fst q \<noteq> k) ps else p # usp_set k v ps)"

subsection \<open>generateJWT\<close>

definition generateJWT :: "env \<Rightarrow> gofletConfig \<Rightarrow> string \<Rightarrow> bool \<Rightarrow> world \<Rightarrow> string \<times> world" where
  "generateJWT E options fileName0 upload w =
     (let fileName1 = replaceBackslashes fileName0;
          basePath = path options;
          hdr = \<lparr>alg = jwtAlgorithm options, hdr_typ = ''JWT''\<rparr>;
          t_iat = date_now E (length w) div 1000;
          w1 = w @ [DateNow];
          t_nbf = date_now E (length w1) div 1000;
          w2 = w1 @ [DateNow];
          perm =
            (if upload then
               \<lparr>perm_path = replaceBackslashes (path_join E [''/file/'', basePath, fileName1]),
                methods = [''POST''],
                query = None\<rparr>
             else
               \<lparr>perm_path = replaceBackslashes (path_join E [''/api/image/'', basePath, fileName1]),
                methods = [''GET''],
                query = Some (queryMapOf (usp_parse E (defaultOptions options)))\<rparr>);
          payload = \<lparr>iss = jwtIssuer options, iat = t_iat, nbf = t_nbf, permissions = [perm]\<rparr>;
          opts = \<lparr>header = hdr, algorithm = jwtAlgorithm options\<rparr>;
          w3 = w2 @ [JwtSign payload (jwtSecret options) opts]
      in case jwt_sign E (length w2) payload (jwtSecret options) opts of
           Some token \<Rightarrow> (token, w3)
         | None \<Rightarrow> ([], w3))"

subsection \<open>postOptions\<close>

definition postOptions ::
  "env \<Rightarrow> gofletConfig \<Rightarrow> string \<Rightarrow> string \<Rightarrow> bytes option \<Rightarrow> thrown + reqOptions" where
  "postOptions E options fileName0 jwtToken imageBuf =
     (let filePath = path options
      in case url_hostname E (endpoint options) of
           None \<Rightarrow> Inl TypeError
         | Some hostname \<Rightarrow>
             Inr \<lparr>req_method = ''POST'',
                  url = endpoint options @ ''/file/''
                        @ replaceBackslashes (path_join E [filePath, fileName0]),
                  headers = \<lparr>Host = hostname,
                             Authorization = ''Bearer '' @ jwtToken,
                             contentType = ''multipart/form-data'',
                             User_Agent = ''PicGo''\<rparr>,
                  formData_file = \<lparr>file_value = imageBuf,
                                   file_filename = fileName0,
                                   file_contentType = mime_lookup E fileName0\<rparr>,
                  resolveWithFullResponse = True\<rparr>)"

subsection \<open>handle\<close>

text \<open>JavaScript truthiness of a parsed value, for \<^verbatim>\<open>body?.error || ...\<close>.\<close>

fun truthy :: "json \<Rightarrow> bool" where
  "truthy JNull = False"
| "truthy (JBool b) = b"
| "truthy (JNum n) = (n \<noteq> 0)"
| "truthy (JStr s) = (s \<noteq> [])"
| "truthy (JArr vs) = True"
| "truthy (JObj kvs) = True"

text \<open>\<^verbatim>\<open>body?.error\<close>: only an object has the property.\<close>

fun error_field :: "json \<Rightarrow> json option" where
  "error_field (JObj kvs) = map_of kvs ''error''"
| "error_field v = None"

text \<open>\<^verbatim>\<open>new Error(body?.error || fallback)\<close>\<close>

definition error_or :: "json \<Rightarrow> string \<Rightarrow> thrown" where
  "error_or b fallback =
     (case error_field b of
        None \<Rightarrow> Error fallback
      | Some v \<Rightarrow>
          (if truthy v then (case v of JStr s \<Rightarrow> Error s | _ \<Rightarrow> ErrorOf v)
           else Error fallback))"

text \<open>
  \<^verbatim>\<open>JSON.parse(res?.body)\<close>. The argument is turned into a string first; the
  made-up object becomes \<^verbatim>\<open>[object Object]\<close>, which is not JSON, so parsing it
  throws.
\<close>

definition parse_body :: "env \<Rightarrow> body \<Rightarrow> json option" where
  "parse_body E b = (case b of BodyString s \<Rightarrow> JSON_parse E s | BodyObject m e \<Rightarrow> None)"

text \<open>
  The body of the \<^verbatim>\<open>try\<close> block, lines 103 to 118: \<open>Inl\<close> is what it throws,
  \<open>Inr\<close> the image and history it leaves when it completes. The throwing branches
  change neither the image nor the history before they throw.
\<close>

definition try_block ::
  "env \<Rightarrow> gofletConfig \<Rightarrow> string \<Rightarrow> string \<Rightarrow> response \<Rightarrow> imgInfo \<Rightarrow> world
   \<Rightarrow> thrown + (imgInfo \<times> world)" where
  "try_block E gofletOptions p name res img w =
     (if statusCode res = 400 then
        (case parse_body E (body res) of
           None \<Rightarrow> Inl SyntaxError
         | Some b \<Rightarrow> Inl (error_or b (translate E AUTH_FAILED)))
      else if statusCode res = 201 then
        (let img1 = img\<lparr>base64Image := None\<rparr>;
             img2 = img1\<lparr>buffer := None\<rparr>;
             url0 = endpoint gofletOptions @ ''/api/image/'' @ p @ ''/''
                    @ replaceBackslashes name;
             searchParams = usp_parse E (defaultOptions gofletOptions)
         in case generateJWT E gofletOptions name False w of
              (visitJwt, w1) \<Rightarrow>
                Inr (img2\<lparr>imgUrl :=
                            Some (url0 @ ''?''
                                  @ usp_toString E (usp_set ''token'' visitJwt searchParams))\<rparr>,
                     w1))
      else
        (case parse_body E (body res) of
           None \<Rightarrow> Inl SyntaxError
         | Some b \<Rightarrow> Inl (error_or b (translate E SERVER_ERROR))))"

text \<open>How one round of the loop ends.\<close>

datatype outcome = Continue | ReturnFalse | Throw thrown

text \<open>Lines 102 to 122: the \<^verbatim>\<open>try\<close> block with its \<^verbatim>\<open>catch\<close>.\<close>

definition try_catch ::
  "env \<Rightarrow> gofletConfig \<Rightarrow> string \<Rightarrow> string \<Rightarrow> response \<Rightarrow> imgInfo \<Rightarrow> world
   \<Rightarrow> outcome \<times> imgInfo \<times> world" where
  "try_catch E gofletOptions p name res img w =
     (case try_block E gofletOptions p name res img w of
        Inl e \<Rightarrow> (Throw (Error (translate E SERVER_ERROR)), img, w)
      | Inr (img', w') \<Rightarrow> (Continue, img', w'))"

text \<open>Lines 90 to 100: the transport call, a rejection turned into a response.\<close>

definition await_request :: "env \<Rightarrow> reqOptions \<Rightarrow> world \<Rightarrow> response \<times> world" where
  "await_request E options w =
     (case ctx_request E (length w) options of
        Inr res \<Rightarrow> (res, w @ [CtxRequest options])
      | Inl err \<Rightarrow>
          (\<lparr>statusCode = 400, body = BodyObject (translate E AUTH_FAILED) err\<rparr>,
           w @ [CtxRequest options]))"

text \<open>The body of the \<^verbatim>\<open>for\<close> loop, lines 79 to 123, for one image.\<close>

definition handle_img ::
  "env \<Rightarrow> gofletConfig \<Rightarrow> string \<Rightarrow> imgInfo \<Rightarrow> world \<Rightarrow> outcome \<times> imgInfo \<times> world" where
  "handle_img E gofletOptions p img w =
     (case fileName img of
        None \<Rightarrow> (Continue, img, w)
      | Some name \<Rightarrow>
          (if name = [] \<or> buffer img = None then (Continue, img, w)
           else
             (case generateJWT E gofletOptions name True w of
                (jwtToken, w1) \<Rightarrow>
                  (if jwtToken = [] then (ReturnFalse, img, w1)
                   else
                     (let imageBuf =
                            (case buffer img of
                               Some b \<Rightarrow> Some b
                             | None \<Rightarrow>
                                 (case base64Image img of
                                    None \<Rightarrow> None
                                  | Some s \<Rightarrow>
                                      (if s = [] then None else Some (base64_decode E s))))
                      in case postOptions E gofletOptions name jwtToken imageBuf of
                           Inl e \<Rightarrow> (Throw e, img, w1)
                         | Inr options \<Rightarrow>
                             (case await_request E options w1 of
                                (res, w2) \<Rightarrow> try_catch E gofletOptions p name res img w2))))))"

text \<open>The \<^verbatim>\<open>for\<close> loop over \<^verbatim>\<open>ctx.output\<close>, mutating the images in place.\<close>

fun handle_loop ::
  "env \<Rightarrow> gofletConfig \<Rightarrow> string \<Rightarrow> imgInfo list \<Rightarrow> world \<Rightarrow> outcome \<times> imgInfo list \<times> world" where
  "handle_loop E gofletOptions p [] w = (Continue, [], w)"
| "handle_loop E gofletOptions p (img # rest) w =
     (case handle_img E gofletOptions p img w of
        (Continue, img', w') \<Rightarrow>
          (case handle_loop E gofletOptions p rest w' of
             (r, rest', w'') \<Rightarrow> (r, img' # rest', w''))
      | (r, img', w') \<Rightarrow> (r, img' # rest, w'))"

text \<open>
  What the promise of \<^verbatim>\<open>handle\<close> settles to: it resolves to \<^verbatim>\<open>ctx\<close> or to
  \<^verbatim>\<open>false\<close>, or it rejects.
\<close>

datatype settled = ResolvedCtx | ResolvedFalse | RejectedWith thrown

text \<open>
  Leaving the loop at its end reaches \<^verbatim>\<open>return ctx\<close>; \<^verbatim>\<open>return false\<close> and a
  \<^verbatim>\<open>throw\<close> inside the loop settle the promise at once.
\<close>

fun settle :: "outcome \<Rightarrow> settled" where
  "settle Continue = ResolvedCtx"
| "settle ReturnFalse = ResolvedFalse"
| "settle (Throw e) = RejectedWith e"

definition handle :: "env \<Rightarrow> picgo \<Rightarrow> world \<Rightarrow> settled \<times> imgInfo list \<times> world" where
  "handle E ctx w =
     (case getConfig ctx of
        None \<Rightarrow> (RejectedWith (Error ''Can't find goflet options''), ctx_output ctx, w)
      | Some gofletOptions \<Rightarrow>
          (case handle_loop E gofletOptions (canonicalBasePath (path gofletOptions))
                  (ctx_output ctx) w of
             (r, imgs, w') \<Rightarrow> (settle r, imgs, w')))"

subsection \<open>Reading a history\<close>

text \<open>The payloads handed to the signing primitive, oldest first.\<close>

fun signedPayloads :: "world \<Rightarrow> jwtPayload list" where
  "signedPayloads [] = []"
| "signedPayloads (DateNow # w) = signedPayloads w"
| "signedPayloads (JwtSign pl secret opts # w) = pl # signedPayloads w"
| "signedPayloads (CtxRequest r # w) = signedPayloads w"

text \<open>The request descriptors handed to the transport, oldest first.\<close>

fun requestsOf :: "world \<Rightarrow> reqOptions list" where
  "requestsOf [] = []"
| "requestsOf (DateNow # w) = requestsOf w"
| "requestsOf (JwtSign pl secret opts # w) = requestsOf w"
| "requestsOf (CtxRequest r # w) = r # requestsOf w"

text \<open>The number of clock reads.\<close>

fun clockReads :: "world \<Rightarrow> nat" where
  "clockReads [] = 0"
| "clockReads (DateNow # w) = Suc (clockReads w)"
| "clockReads (JwtSign pl secret opts # w) = clockReads w"
| "clockReads (CtxRequest r # w) = clockReads w"

text \<open>The latest effect of a history, when it is a call of the signing primitive.\<close>

definition lastSigned :: "world \<Rightarrow> (jwtPayload \<times> string \<times> signOptions) option" where
  "lastSigned w =
     (case rev w of
        [] \<Rightarrow> None
      | DateNow # es \<Rightarrow> None
      | JwtSign pl secret opts # es \<Rightarrow> Some (pl, secret, opts)
      | CtxRequest r # es \<Rightarrow> None)"

text \<open>The file name a request descriptor carries in its form data.\<close>

definition requestName :: "reqOptions \<Rightarrow> string" where
  "requestName r = file_filename (formData_file r)"


text \<open>
  A path in canonical form: no backslash, no slash in first position and no slash in
  last position.
\<close>

definition canonicalPath :: "string \<Rightarrow> bool" where
  "canonicalPath q =
     (CHR 0x5C \<notin> set q \<and> take 1 q \<noteq> ''/'' \<and> take 1 (rev q) \<noteq> ''/'')"

subsection \<open>An environment for the examples\<close>

text \<open>
  Stand-ins for the imported primitives, correct on the inputs of the examples:
  \<open>join_example\<close> joins the non-empty segments with a slash and merges repeated
  slashes, as \<^verbatim>\<open>path.join\<close> does on POSIX for segments without dots;
  \<open>parse_example\<close> and \<open>toString_example\<close> read and print a query string without
  escapes.
\<close>

fun collapseSlashes :: "string \<Rightarrow> string" where
  "collapseSlashes (a # b # cs) =
     (if a = CHR ''/'' \<and> b = CHR ''/'' then collapseSlashes (b # cs)
      else a # collapseSlashes (b # cs))"
| "collapseSlashes cs = cs"

fun joinWith :: "string \<Rightarrow> string list \<Rightarrow> string" where
  "joinWith sep [] = []"
| "joinWith sep [s] = s"
| "joinWith sep (s # t # ss) = s @ sep @ joinWith sep (t # ss)"

definition join_example :: "string list \<Rightarrow> string" where
  "join_example parts = collapseSlashes (joinWith ''/'' (filter (\<lambda>s. s \<noteq> []) parts))"

fun splitOn :: "char \<Rightarrow> string \<Rightarrow> string list" where
  "splitOn c [] = [[]]"
| "splitOn c (x # xs) =
     (if x = c then [] # splitOn c xs
      else (case splitOn c xs of [] \<Rightarrow> [[x]] | y # ys \<Rightarrow> (x # y) # ys))"

definition parse_example :: "string \<Rightarrow> (string \<times> string) list" where
  "parse_example s =
     map (\<lambda>kv. (takeWhile (\<lambda>c. c \<noteq> CHR ''='') kv, drop 1 (dropWhile (\<lambda>c. c \<noteq> CHR ''='') kv)))
       (filter (\<lambda>kv. kv \<noteq> []) (splitOn (CHR ''&'') s))"

definition toString_example :: "(string \<times> string) list \<Rightarrow> string" where
  "toString_example ps = joinWith ''&'' (map (\<lambda>kv. fst kv @ ''='' @ snd kv) ps)"

definition json_example :: "string \<Rightarrow> json option" where
  \<open>json_example s =
     (if s = ''{"error":"bad signature"}'' then Some (JObj [(''error'', JStr ''bad signature'')])
      else if s = ''{}'' then Some (JObj [])
      else None)\<close>

text \<open>
  The signing primitive of the examples names the granted method in the token and
  throws on an empty secret.
\<close>

definition sign_example :: "nat \<Rightarrow> jwtPayload \<Rightarrow> string \<Rightarrow> signOptions \<Rightarrow> string option" where
  "sign_example k pl secret opts =
     (if secret = [] then None
      else (case permissions pl of
              [perm] \<Rightarrow> Some (''jwt.'' @ concat (methods perm))
            | _ \<Rightarrow> None))"

text \<open>
  The gateway of the examples: \<^verbatim>\<open>b.png\<close> is refused with status 400 and an
  \<^verbatim>\<open>error\<close> field, \<^verbatim>\<open>d.png\<close> with status 400 and no such field, for
  \<^verbatim>\<open>c.png\<close> the connection fails, every other upload is created.
\<close>

definition gateway_example :: "nat \<Rightarrow> reqOptions \<Rightarrow> thrown + response" where
  \<open>gateway_example k r =
     (if requestName r = ''b.png''
        then Inr \<lparr>statusCode = 400, body = BodyString ''{"error":"bad signature"}''\<rparr>
      else if requestName r = ''d.png''
        then Inr \<lparr>statusCode = 400, body = BodyString ''{}''\<rparr>
      else if requestName r = ''c.png'' then Inl (Rejected ''ECONNRESET'')
      else Inr \<lparr>statusCode = 201, body = BodyString []\<rparr>)\<close>

definition translate_example :: "localesKey \<Rightarrow> string" where
  "translate_example k = (case k of AUTH_FAILED \<Rightarrow> ''Auth failed'' | SERVER_ERROR \<Rightarrow> ''Server error'')"

definition env_example :: env where
  "env_example =
     \<lparr>date_now = (\<lambda>k. 1700000000000),
      jwt_sign = sign_example,
      ctx_request = gateway_example,
      translate = translate_example,
      path_join = join_example,
      usp_parse = parse_example,
      usp_toString = toString_example,
      url_hostname = (\<lambda>u. if u = ''https://goflet.example.com'' then Some ''goflet.example.com''
                          else None),
      mime_lookup = (\<lambda>n. Some ''image/png''),
      JSON_parse = json_example,
      base64_decode = (\<lambda>s. [])\<rparr>"

text \<open>A clock that advances by one millisecond per effect, started just before a full second.\<close>

definition env_ticking :: env where
  "env_ticking = env_example\<lparr>date_now := (\<lambda>k. 1699999999999 + int k)\<rparr>"

text \<open>A signing primitive that signs upload payloads and throws on every other payload.\<close>

definition env_upload_only :: env where
  "env_upload_only =
     env_example\<lparr>jwt_sign := (\<lambda>k pl secret opts.
        (case permissions pl of
           [perm] \<Rightarrow> (if methods perm = [''POST''] then Some ''jwt.POST'' else None)
         | _ \<Rightarrow> None))\<rparr>"

text \<open>A signing primitive that throws on the upload payload of \<^verbatim>\<open>z.png\<close>.\<close>

definition env_refuses_z :: env where
  "env_refuses_z =
     env_example\<lparr>jwt_sign := (\<lambda>k pl secret opts.
        (if map perm_path (permissions pl) = [''/file/img/z.png''] then None
         else sign_example k pl secret opts))\<rparr>"

text \<open>A signing primitive that always throws.\<close>

definition env_no_sign :: env where
  "env_no_sign = env_example\<lparr>jwt_sign := (\<lambda>k pl secret opts. None)\<rparr>"

definition cfg_example :: gofletConfig where
  "cfg_example =
     \<lparr>endpoint = ''https://goflet.example.com'',
      path = ''/img/'',
      jwtSecret = ''secret'',
      jwtAlgorithm = ''HS256'',
      jwtIssuer = ''picgo'',
      defaultOptions = ''w=100''\<rparr>"

definition img_example :: "string \<Rightarrow> imgInfo" where
  "img_example name =
     \<lparr>fileName = Some name, buffer = Some [1, 2, 3], base64Image = None, imgUrl = None\<rparr>"

definition img_base64_only :: imgInfo where
  "img_base64_only =
     \<lparr>fileName = Some ''a.png'', buffer = None, base64Image = Some ''AQID'', imgUrl = None\<rparr>"

definition ctx_example :: "imgInfo list \<Rightarrow> picgo" where
  "ctx_example imgs = \<lparr>getConfig = Some cfg_example, ctx_output = imgs\<rparr>"



definition cfg_slashes :: gofletConfig where
  "cfg_slashes = cfg_example\<lparr>path := ''//img//''\<rparr>"

text \<open>An image whose file name holds a backslash, and the request descriptor built for it.\<close>

definition img_nested_example :: imgInfo where
  "img_nested_example =
     \<lparr>fileName = Some (''x'' @ [CHR 0x5C] @ ''a.png''), buffer = Some [1, 2, 3],
      base64Image = None, imgUrl = None\<rparr>"

definition request_nested_example :: reqOptions where
  "request_nested_example =
     \<lparr>req_method = ''POST'',
      url = ''https://goflet.example.com/file//img/x/a.png'',
      headers = \<lparr>Host = ''goflet.example.com'',
                 Authorization = ''Bearer jwt.POST'',
                 contentType = ''multipart/form-data'',
                 User_Agent = ''PicGo''\<rparr>,
      formData_file = \<lparr>file_value = Some [1, 2, 3],
                       file_filename = ''x'' @ [CHR 0x5C] @ ''a.png'',
                       file_contentType = Some ''image/png''\<rparr>,
      resolveWithFullResponse = True\<rparr>"

text \<open>
  What the examples produce: the payloads and signing options, the request
  descriptor of an example image, and an example image after its upload.
\<close>

definition upload_payload_example :: "string \<Rightarrow> jwtPayload" where
  "upload_payload_example name =
     \<lparr>iss = ''picgo'', iat = 1700000000, nbf = 1700000000,
      permissions = [\<lparr>perm_path = ''/file/img/'' @ name, methods = [''POST''], query = None\<rparr>]\<rparr>"

definition visit_payload_example :: "string \<Rightarrow> jwtPayload" where
  "visit_payload_example name =
     \<lparr>iss = ''picgo'', iat = 1700000000, nbf = 1700000000,
      permissions = [\<lparr>perm_path = ''/api/image/img/'' @ name, methods = [''GET''],
                      query = Some [(''w'', ''100'')]\<rparr>]\<rparr>"

definition sign_options_example :: signOptions where
  "sign_options_example =
     \<lparr>header = \<lparr>alg = ''HS256'', hdr_typ = ''JWT''\<rparr>, algorithm = ''HS256''\<rparr>"

definition request_example :: "string \<Rightarrow> reqOptions" where
  "request_example name =
     \<lparr>req_method = ''POST'',
      url = ''https://goflet.example.com/file//img/'' @ name,
      headers = \<lparr>Host = ''goflet.example.com'',
                 Authorization = ''Bearer jwt.POST'',
                 contentType = ''multipart/form-data'',
                 User_Agent = ''PicGo''\<rparr>,
      formData_file = \<lparr>file_value = Some [1, 2, 3],
                       file_filename = name,
                       file_contentType = Some ''image/png''\<rparr>,
      resolveWithFullResponse = True\<rparr>"

definition img_uploaded :: "string \<Rightarrow> string \<Rightarrow> imgInfo" where
  "img_uploaded name token =
     \<lparr>fileName = Some name, buffer = None, base64Image = None,
      imgUrl = Some (''https://goflet.example.com/api/image/img/'' @ name
                     @ ''?w=100&token='' @ token)\<rparr>"

section \<open>Histories, token issuance and the loop\<close>

lemma signedPayloads_append: "signedPayloads (a @ b) = signedPayloads a @ signedPayloads b"
  by (induction a rule: signedPayloads.induct) simp_all

lemma requestsOf_append: "requestsOf (a @ b) = requestsOf a @ requestsOf b"
  by (induction a rule: requestsOf.induct) simp_all

lemma clockReads_append: "clockReads (a @ b) = clockReads a + clockReads b"
  by (induction a rule: clockReads.induct) simp_all

lemma lastSigned_snoc: "lastSigned (w @ [JwtSign pl secret opts]) = Some (pl, secret, opts)"
  by (simp add: lastSigned_def)

lemma generateJWT_history:
  "snd (generateJWT E cfg name upload w) =
     w @ [DateNow, DateNow,
          JwtSign
            \<lparr>iss = jwtIssuer cfg,
             iat = date_now E (length w) div 1000,
             nbf = date_now E (Suc (length w)) div 1000,
             permissions =
               [if upload then
                  \<lparr>perm_path = replaceBackslashes
                     (path_join E [''/file/'', path cfg, replaceBackslashes name]),
                   methods = [''POST''], query = None\<rparr>
                else
                  \<lparr>perm_path = replaceBackslashes
                     (path_join E [''/api/image/'', path cfg, replaceBackslashes name]),
                   methods = [''GET''],
                   query = Some (queryMapOf (usp_parse E (defaultOptions cfg)))\<rparr>]\<rparr>
            (jwtSecret cfg)
            \<lparr>header = \<lparr>alg = jwtAlgorithm cfg, hdr_typ = ''JWT''\<rparr>,
             algorithm = jwtAlgorithm cfg\<rparr>]"
  by (simp add: generateJWT_def Let_def split: option.splits)

lemma generateJWT_token:
  "fst (generateJWT E cfg name upload w) =
     (case jwt_sign E (length w + 2)
             \<lparr>iss = jwtIssuer cfg,
              iat = date_now E (length w) div 1000,
              nbf = date_now E (Suc (length w)) div 1000,
              permissions =
                [if upload then
                   \<lparr>perm_path = replaceBackslashes
                      (path_join E [''/file/'', path cfg, replaceBackslashes name]),
                    methods = [''POST''], query = None\<rparr>
                 else
                   \<lparr>perm_path = replaceBackslashes
                      (path_join E [''/api/image/'', path cfg, replaceBackslashes name]),
                    methods = [''GET''],
                    query = Some (queryMapOf (usp_parse E (defaultOptions cfg)))\<rparr>]\<rparr>
             (jwtSecret cfg)
             \<lparr>header = \<lparr>alg = jwtAlgorithm cfg, hdr_typ = ''JWT''\<rparr>,
              algorithm = jwtAlgorithm cfg\<rparr> of
        Some token \<Rightarrow> token
      | None \<Rightarrow> [])"
  by (simp add: generateJWT_def Let_def split: option.splits)

lemma generateJWT_requests: "requestsOf (snd (generateJWT E cfg name upload w)) = requestsOf w"
  by (simp add: generateJWT_history requestsOf_append)

lemma generateJWT_raise:
  assumes "lastSigned (snd (generateJWT E cfg name upload w)) = Some (pl, secret, opts)"
    and "jwt_sign E (length w + 2) pl secret opts = None"
  shows "fst (generateJWT E cfg name upload w) = []"
  using assms by (auto simp: generateJWT_history generateJWT_token lastSigned_def)

lemma try_catch_cases:
  "try_catch E cfg p name res img w = (r, img', w') \<Longrightarrow>
     (r = Continue \<and> statusCode res = 201) \<or>
     (r = Throw (Error (translate E SERVER_ERROR)) \<and> img' = img \<and> w' = w)"
  by (auto simp: try_catch_def try_block_def Let_def split: if_splits option.splits sum.splits prod.splits)

lemma handle_loop_append:
  "handle_loop E cfg p (xs @ ys) w =
     (case handle_loop E cfg p xs w of
        (Continue, xs', w') \<Rightarrow>
          (case handle_loop E cfg p ys w' of (r, ys', w'') \<Rightarrow> (r, xs' @ ys', w''))
      | (r, xs', w') \<Rightarrow> (r, xs' @ ys, w'))"
  by (induction xs arbitrary: w) (auto split: prod.splits outcome.splits)

lemma handle_img_abort_unchanged:
  "handle_img E cfg p img w = (r, img', w') \<Longrightarrow> r \<noteq> Continue \<Longrightarrow> img' = img"
  by (auto simp: handle_img_def Let_def dest: try_catch_cases split: option.splits if_splits prod.splits sum.splits)

lemma handle_loop_abort_at:
  assumes "handle_loop E cfg p pre w = (Continue, pre', w1)"
    and "handle_img E cfg p img w1 = (r, img', w2)" and "r \<noteq> Continue"
  shows "handle_loop E cfg p (pre @ img # post) w = (r, pre' @ img # post, w2)"
proof -
  from assms(2,3) have "img' = img" by (rule handle_img_abort_unchanged)
  with assms show ?thesis
    by (cases r) (simp_all add: handle_loop_append)
qed













lemma handle_img_skip:
  "fileName img = None \<or> fileName img = Some [] \<or> buffer img = None \<Longrightarrow>
   handle_img E cfg p img w = (Continue, img, w)"
  by (auto simp: handle_img_def split: option.splits)

lemma handle_img_token_failure:
  assumes "fileName img = Some name" "name \<noteq> []" "buffer img = Some b"
    and "fst (generateJWT E cfg name True w) = []"
  shows "handle_img E cfg p img w = (ReturnFalse, img, snd (generateJWT E cfg name True w))"
  using assms by (auto simp: handle_img_def split: prod.splits)

lemma handle_img_requests_no_sign:
  assumes "\<forall>k pl secret opts. jwt_sign E k pl secret opts = None"
  shows "requestsOf (snd (snd (handle_img E cfg p img w))) = requestsOf w
         \<and> fst (handle_img E cfg p img w) \<noteq> Throw e"
proof (cases "fileName img = None \<or> fileName img = Some [] \<or> buffer img = None")
  case True
  then show ?thesis by (simp add: handle_img_skip)
next
  case False
  then obtain name b where nb: "fileName img = Some name" "name \<noteq> []" "buffer img = Some b"
    by auto
  from assms have "fst (generateJWT E cfg name True w) = []"
    by (simp add: generateJWT_token)
  with nb show ?thesis
    by (simp add: handle_img_token_failure generateJWT_requests)
qed

lemma handle_loop_requests_no_sign:
  assumes "\<forall>k pl secret opts. jwt_sign E k pl secret opts = None"
  shows "requestsOf (snd (snd (handle_loop E cfg p imgs w))) = requestsOf w"
proof (induction imgs arbitrary: w)
  case Nil
  then show ?case by simp
next
  case (Cons img rest)
  obtain r img' w' where h: "handle_img E cfg p img w = (r, img', w')"
    by (cases "handle_img E cfg p img w") auto
  with handle_img_requests_no_sign [OF assms, of cfg p img w]
  have rq: "requestsOf w' = requestsOf w" by simp
  show ?case
  proof (cases r)
    case Continue
    with h rq Cons [of w'] show ?thesis by (auto split: prod.splits)
  next
    case ReturnFalse
    with h rq show ?thesis by simp
  next
    case (Throw e)
    with h rq show ?thesis by simp
  qed
qed

lemma usp_set_token: "filter (\<lambda>kv. fst kv = k) (usp_set k v ps) = [(k, v)]"
  by (induction ps) (auto simp: filter_empty_conv)

lemma usp_set_others: "filter (\<lambda>kv. fst kv \<noteq> k) (usp_set k v ps) = filter (\<lambda>kv. fst kv \<noteq> k) ps"
  by (induction ps) auto



lemma await_request_resolved:
  "ctx_request E (length w) options = Inr res \<Longrightarrow>
   await_request E options w = (res, w @ [CtxRequest options])"
  by (simp add: await_request_def)

lemma try_catch_created:
  assumes "statusCode res = 201"
  shows "try_catch E cfg p name res img w =
     (Continue,
      img\<lparr>base64Image := None, buffer := None,
          imgUrl := Some (endpoint cfg @ ''/api/image/'' @ p @ ''/'' @ replaceBackslashes name
                          @ ''?'' @ usp_toString E
                                     (usp_set ''token'' (fst (generateJWT E cfg name False w))
                                        (usp_parse E (defaultOptions cfg))))\<rparr>,
      snd (generateJWT E cfg name False w))"
  using assms by (simp add: try_catch_def try_block_def Let_def split: prod.splits)


lemma handle_img_created:
  assumes "fileName img = Some name" "name \<noteq> []" "buffer img = Some b"
    and "generateJWT E cfg name True w1 = (jwtToken, w2)" "jwtToken \<noteq> []"
    and "postOptions E cfg name jwtToken (Some b) = Inr options"
    and "ctx_request E (length w2) options = Inr res" "statusCode res = 201"
  shows "handle_img E cfg p img w1 =
     (Continue,
      img\<lparr>base64Image := None, buffer := None,
          imgUrl := Some (endpoint cfg @ ''/api/image/'' @ p @ ''/'' @ replaceBackslashes name
                          @ ''?'' @ usp_toString E
                               (usp_set ''token''
                                  (fst (generateJWT E cfg name False (w2 @ [CtxRequest options])))
                                  (usp_parse E (defaultOptions cfg))))\<rparr>,
      snd (generateJWT E cfg name False (w2 @ [CtxRequest options])))"
  using assms
  by (simp add: handle_img_def await_request_resolved try_catch_created)

lemma handle_at_continue:
  assumes "getConfig ctx = Some cfg" "ctx_output ctx = pre @ img # post"
    and "handle_loop E cfg (canonicalBasePath (path cfg)) pre w = (Continue, pre', w1)"
    and "handle_img E cfg (canonicalBasePath (path cfg)) img w1 = (Continue, img', w3)"
  shows "handle E ctx w =
     (case handle_loop E cfg (canonicalBasePath (path cfg)) post w3 of
        (r, post', w4) \<Rightarrow> (settle r, pre' @ img' # post', w4))"
  using assms by (simp add: handle_def handle_loop_append split: prod.splits)







section \<open>Path canonicalization\<close>

lemma replaceBackslashes_free: "CHR 0x5C \<notin> set (replaceBackslashes s)"
  by (auto simp: replaceBackslashes_def)

lemma replaceBackslashes_id: "CHR 0x5C \<notin> set s \<Longrightarrow> replaceBackslashes s = s"
  by (induction s) (auto simp: replaceBackslashes_def)

lemma set_stripLeadingSlash: "set (stripLeadingSlash s) \<subseteq> set s"
  by (cases s) auto

lemma set_stripTrailingSlash: "set (stripTrailingSlash s) \<subseteq> set s"
  by (auto simp: stripTrailingSlash_def dest: in_set_butlastD)

lemma canonicalBasePath_free: "CHR 0x5C \<notin> set (canonicalBasePath s)"
  using set_stripTrailingSlash set_stripLeadingSlash replaceBackslashes_free
  unfolding canonicalBasePath_def by blast

lemma stripLeadingSlash_single:
  assumes "take 2 r \<noteq> ''//''" and "take 2 (rev r) \<noteq> ''//''"
  shows "take 1 (stripLeadingSlash r) \<noteq> ''/'' \<and> take 2 (rev (stripLeadingSlash r)) \<noteq> ''//''"
proof (cases r)
  case Nil
  then show ?thesis by simp
next
  case (Cons c cs)
  show ?thesis
  proof (cases "c = CHR ''/''")
    case False
    with Cons assms show ?thesis by simp
  next
    case True
    with Cons assms(1) have a: "take 1 cs \<noteq> ''/''"
      by (cases cs) (auto simp: numeral_2_eq_2)
    have b: "take 2 (rev cs) \<noteq> ''//''"
    proof (cases "length cs < 2")
      case True
      then have "length (take 2 (rev cs)) < 2" by simp
      then show ?thesis by auto
    next
      case False
      with Cons assms(2) show ?thesis by simp
    qed
    from Cons True a b show ?thesis by simp
  qed
qed

lemma stripTrailingSlash_single:
  assumes "take 1 s \<noteq> ''/''" and "take 2 (rev s) \<noteq> ''//''"
  shows "take 1 (stripTrailingSlash s) \<noteq> ''/'' \<and> take 1 (rev (stripTrailingSlash s)) \<noteq> ''/''"
proof (cases s rule: rev_cases)
  case Nil
  then show ?thesis by (simp add: stripTrailingSlash_def)
next
  case (snoc xs d)
  show ?thesis
  proof (cases "d = CHR ''/''")
    case False
    with snoc assms show ?thesis by (simp add: stripTrailingSlash_def)
  next
    case True
    with snoc assms(1) have a: "take 1 xs \<noteq> ''/''"
      by (cases xs) auto
    from snoc True assms(2) have b: "take 1 (rev xs) \<noteq> ''/''"
      by (auto simp: numeral_2_eq_2)
    from snoc True a b show ?thesis by (simp add: stripTrailingSlash_def)
  qed
qed

lemma canonicalBasePath_single_slashes:
  assumes "take 2 (replaceBackslashes p) \<noteq> ''//''"
    and "take 2 (rev (replaceBackslashes p)) \<noteq> ''//''"
  shows "canonicalPath (canonicalBasePath p)"
proof -
  from stripLeadingSlash_single [OF assms]
  have "take 1 (stripLeadingSlash (replaceBackslashes p)) \<noteq> ''/''"
    and "take 2 (rev (stripLeadingSlash (replaceBackslashes p))) \<noteq> ''//''"
    by simp_all
  from stripTrailingSlash_single [OF this] canonicalBasePath_free [of p]
  show ?thesis
    by (simp add: canonicalPath_def canonicalBasePath_def)
qed

lemma length_stripLeadingSlash:
  "length (stripLeadingSlash s) = (if take 1 s = ''/'' then length s - 1 else length s)"
  by (cases s) auto

lemma length_stripTrailingSlash:
  "length (stripTrailingSlash s) = (if take 1 (rev s) = ''/'' then length s - 1 else length s)"
  by (cases s rule: rev_cases) (auto simp: stripTrailingSlash_def)

lemma stripLeadingSlash_id: "take 1 s \<noteq> ''/'' \<Longrightarrow> stripLeadingSlash s = s"
  by (cases s) auto

lemma stripTrailingSlash_id: "take 1 (rev s) \<noteq> ''/'' \<Longrightarrow> stripTrailingSlash s = s"
  by (cases s rule: rev_cases) (auto simp: stripTrailingSlash_def)

lemma canonicalBasePath_fixed: "canonicalPath q \<Longrightarrow> canonicalBasePath q = q"
  by (simp add: canonicalPath_def canonicalBasePath_def replaceBackslashes_id
      stripLeadingSlash_id stripTrailingSlash_id)

lemma length_replaceBackslashes: "length (replaceBackslashes s) = length s"
  by (simp add: replaceBackslashes_def)

lemma fixed_canonicalPath:
  assumes "canonicalBasePath q = q"
  shows "canonicalPath q"
proof -
  let ?r = "replaceBackslashes q"
  have len: "length (stripTrailingSlash (stripLeadingSlash ?r)) = length ?r"
    using assms by (simp add: canonicalBasePath_def length_replaceBackslashes)
  have lead: "take 1 ?r \<noteq> ''/''"
  proof
    assume "take 1 ?r = ''/''"
    then have "length (stripLeadingSlash ?r) = length ?r - 1" and "?r \<noteq> []"
      by (auto simp: length_stripLeadingSlash)
    moreover have "length (stripTrailingSlash (stripLeadingSlash ?r)) \<le> length (stripLeadingSlash ?r)"
      by (simp add: length_stripTrailingSlash)
    ultimately show False using len by (cases ?r) auto
  qed
  then have l: "stripLeadingSlash ?r = ?r" by (rule stripLeadingSlash_id)
  have trail: "take 1 (rev ?r) \<noteq> ''/''"
  proof
    assume a: "take 1 (rev ?r) = ''/''"
    then have "?r \<noteq> []" by auto
    with a len l show False by (simp add: length_stripTrailingSlash)
  qed
  then have "canonicalBasePath q = ?r"
    by (simp add: canonicalBasePath_def l stripTrailingSlash_id)
  with assms have "?r = q" by simp
  with lead trail replaceBackslashes_free [of q] show ?thesis
    by (simp add: canonicalPath_def)
qed

text \<open>
  Claim C9, as the code has it. Replacing the backslashes is idempotent, and neither
  it nor the base path computed on line 77 ever returns a backslash. Line 77 removes
  one leading and one trailing slash only: the paths it returns unchanged are
  exactly the canonical ones (no backslash, no slash in first or last position),
  so a canonical path is a fixed point, while an output that still starts or ends
  with a slash is changed by a second pass.
\<close>

theorem canonical_paths_are_the_fixed_points:
  "replaceBackslashes (replaceBackslashes s) = replaceBackslashes s
   \<and> CHR 0x5C \<notin> set (replaceBackslashes s)
   \<and> CHR 0x5C \<notin> set (canonicalBasePath s)
   \<and> (canonicalPath q \<longrightarrow> canonicalBasePath q = q \<and> replaceBackslashes q = q)
   \<and> (canonicalBasePath q = q \<longrightarrow> canonicalPath q)"
proof (intro conjI impI)
  show "replaceBackslashes (replaceBackslashes s) = replaceBackslashes s"
    by (rule replaceBackslashes_id) (rule replaceBackslashes_free)
  show "CHR 0x5C \<notin> set (replaceBackslashes s)"
    by (rule replaceBackslashes_free)
  show "CHR 0x5C \<notin> set (canonicalBasePath s)"
    by (rule canonicalBasePath_free)
  show "canonicalBasePath q = q" if "canonicalPath q"
    using that by (rule canonicalBasePath_fixed)
  show "replaceBackslashes q = q" if "canonicalPath q"
    using that by (simp add: canonicalPath_def replaceBackslashes_id)
  show "canonicalPath q" if "canonicalBasePath q = q"
    using that by (rule fixed_canonicalPath)
qed

theorem canonical_paths_are_the_fixed_points_witness:
  "canonicalPath ''img/2024''
   \<and> canonicalBasePath ''img/2024'' = ''img/2024''
   \<and> replaceBackslashes ''img/2024'' = ''img/2024''
   \<and> CHR 0x5C \<notin> set (canonicalBasePath [CHR ''a'', CHR 0x5C, CHR ''b'', CHR ''/''])
   \<and> canonicalBasePath [CHR ''a'', CHR 0x5C, CHR ''b'', CHR ''/''] = ''a/b''"
  using canonical_paths_are_the_fixed_points
    [of "[CHR ''a'', CHR 0x5C, CHR ''b'', CHR ''/'']" "''img/2024''"]
  by (simp add: canonicalPath_def canonicalBasePath_def stripTrailingSlash_def
      replaceBackslashes_def)

text \<open>
  The base path of line 77 is not idempotent on every input: from a backslash
  followed by \<^verbatim>\<open>/a\<close> the first pass returns \<^verbatim>\<open>/a\<close> and the second
  \<^verbatim>\<open>a\<close>.
\<close>

theorem canonicalBasePath_not_idempotent:
  "canonicalBasePath [CHR 0x5C, CHR ''/'', CHR ''a''] = ''/a''
   \<and> canonicalBasePath (canonicalBasePath [CHR 0x5C, CHR ''/'', CHR ''a'']) = ''a''
   \<and> canonicalBasePath (canonicalBasePath [CHR 0x5C, CHR ''/'', CHR ''a''])
       \<noteq> canonicalBasePath [CHR 0x5C, CHR ''/'', CHR ''a'']"
  by (simp add: canonicalBasePath_def stripTrailingSlash_def replaceBackslashes_def)

section \<open>Token payloads\<close>




text \<open>
  Claim C8, as the code has it. \<^verbatim>\<open>generateJWT\<close> reads the clock twice: \<^verbatim>\<open>iat\<close>
  is the first reading and \<^verbatim>\<open>nbf\<close> the second, each divided by 1000 and rounded
  down. The two fields agree when both readings fall into the same second, and
  \<^verbatim>\<open>iat\<close> is at most \<^verbatim>\<open>nbf\<close> when the clock does not go backwards.
\<close>

theorem token_timestamps_from_two_clock_reads:
  "\<exists>pl secret opts.
     lastSigned (snd (generateJWT E cfg name upload w)) = Some (pl, secret, opts)
     \<and> iat pl = date_now E (length w) div 1000
     \<and> nbf pl = date_now E (Suc (length w)) div 1000
     \<and> clockReads (snd (generateJWT E cfg name upload w)) = clockReads w + 2
     \<and> (date_now E (length w) div 1000 = date_now E (Suc (length w)) div 1000
          \<longrightarrow> iat pl = nbf pl)
     \<and> (date_now E (length w) \<le> date_now E (Suc (length w)) \<longrightarrow> iat pl \<le> nbf pl)"
  by (simp add: generateJWT_history lastSigned_def clockReads_append zdiv_mono1)

theorem token_timestamps_from_two_clock_reads_witness:
  "date_now env_example 0 div 1000 = date_now env_example (Suc 0) div 1000
   \<and> date_now env_example 0 \<le> date_now env_example (Suc 0)
   \<and> (\<exists>pl secret opts.
        lastSigned (snd (generateJWT env_example cfg_example ''a.png'' True []))
          = Some (pl, secret, opts)
        \<and> iat pl = 1700000000 \<and> nbf pl = 1700000000 \<and> iat pl = nbf pl)"
  using token_timestamps_from_two_clock_reads [of env_example cfg_example "''a.png''" True "[]"]
  by (auto simp: env_example_def)

text \<open>
  With a first reading of 1699999999999 ms and a second of 1700000000000 ms the two
  fields of one payload differ.
\<close>

theorem iat_nbf_differ_across_a_second:
  "map_option (iat \<circ> fst) (lastSigned (snd (generateJWT env_ticking cfg_example ''a.png'' True [])))
     = Some 1699999999
   \<and> map_option (nbf \<circ> fst) (lastSigned (snd (generateJWT env_ticking cfg_example ''a.png'' True [])))
     = Some 1700000000
   \<and> clockReads (snd (generateJWT env_ticking cfg_example ''a.png'' True [])) = 2"
  by (simp add: generateJWT_history lastSigned_def env_ticking_def env_example_def)

section \<open>The batch\<close>

text \<open>
  Claim C4. \<^verbatim>\<open>generateJWT\<close> returns a string in every case (the configuration
  fields and the file name being strings, nothing before the \<^verbatim>\<open>try\<close> can throw),
  and when the call of the signing primitive that it makes throws, it returns the
  empty string. When the loop reaches an image that passes the guard of line 79 and
  the upload token of that image is empty, \<^verbatim>\<open>handle\<close> resolves to \<^verbatim>\<open>false\<close>:
  the images before it keep what the loop did to them, the image itself and the
  images after it are untouched, and no request has been handed to the transport
  since the image was reached. With a signing primitive that always throws,
  \<^verbatim>\<open>handle\<close> hands no request to the transport at all.
\<close>

theorem signing_failure_stops_the_batch:
  "(lastSigned (snd (generateJWT E cfg itemPath upload w0)) = Some (pl, secret, opts)
      \<and> jwt_sign E (length w0 + 2) pl secret opts = None
      \<longrightarrow> fst (generateJWT E cfg itemPath upload w0) = [])
   \<and> (getConfig ctx = Some cfg \<and> ctx_output ctx = pre @ img # post
      \<and> handle_loop E cfg (canonicalBasePath (path cfg)) pre w = (Continue, pre', w1)
      \<and> fileName img = Some name \<and> name \<noteq> [] \<and> buffer img = Some b
      \<and> fst (generateJWT E cfg name True w1) = []
      \<longrightarrow> handle E ctx w = (ResolvedFalse, pre' @ img # post, snd (generateJWT E cfg name True w1))
          \<and> requestsOf (snd (generateJWT E cfg name True w1)) = requestsOf w1)
   \<and> (getConfig ctx = Some cfg \<and> (\<forall>k pl secret opts. jwt_sign E k pl secret opts = None)
      \<longrightarrow> requestsOf (snd (snd (handle E ctx w))) = requestsOf w)"
proof (intro conjI impI)
  assume "lastSigned (snd (generateJWT E cfg itemPath upload w0)) = Some (pl, secret, opts)
      \<and> jwt_sign E (length w0 + 2) pl secret opts = None"
  then show "fst (generateJWT E cfg itemPath upload w0) = []"
    using generateJWT_raise by blast
next
  assume a: "getConfig ctx = Some cfg \<and> ctx_output ctx = pre @ img # post
      \<and> handle_loop E cfg (canonicalBasePath (path cfg)) pre w = (Continue, pre', w1)
      \<and> fileName img = Some name \<and> name \<noteq> [] \<and> buffer img = Some b
      \<and> fst (generateJWT E cfg name True w1) = []"
  then have "handle_img E cfg (canonicalBasePath (path cfg)) img w1
      = (ReturnFalse, img, snd (generateJWT E cfg name True w1))"
    by (simp add: handle_img_token_failure)
  with a have "handle_loop E cfg (canonicalBasePath (path cfg)) (pre @ img # post) w
      = (ReturnFalse, pre' @ img # post, snd (generateJWT E cfg name True w1))"
    by (simp add: handle_loop_abort_at)
  with a show "handle E ctx w
      = (ResolvedFalse, pre' @ img # post, snd (generateJWT E cfg name True w1))"
    by (simp add: handle_def)
  show "requestsOf (snd (generateJWT E cfg name True w1)) = requestsOf w1"
    by (rule generateJWT_requests)
next
  assume a: "getConfig ctx = Some cfg \<and> (\<forall>k pl secret opts. jwt_sign E k pl secret opts = None)"
  then have "requestsOf (snd (snd (handle_loop E cfg (canonicalBasePath (path cfg)) (ctx_output ctx) w)))
      = requestsOf w"
    by (simp add: handle_loop_requests_no_sign)
  with a show "requestsOf (snd (snd (handle E ctx w))) = requestsOf w"
    by (auto simp: handle_def split: prod.splits)
qed

theorem signing_failure_stops_the_batch_witness:
  "lastSigned (snd (generateJWT env_no_sign cfg_example ''a.png'' True []))
     = Some (upload_payload_example ''a.png'', ''secret'', sign_options_example)
   \<and> jwt_sign env_no_sign (length ([] :: world) + 2) (upload_payload_example ''a.png'')
        ''secret'' sign_options_example = None
   \<and> fst (generateJWT env_no_sign cfg_example ''a.png'' True []) = []
   \<and> handle env_no_sign (ctx_example [img_example ''a.png'', img_example ''b.png'']) []
       = (ResolvedFalse, [img_example ''a.png'', img_example ''b.png''],
          snd (generateJWT env_no_sign cfg_example ''a.png'' True []))
   \<and> requestsOf (snd (snd (handle env_no_sign
          (ctx_example [img_example ''a.png'', img_example ''b.png'']) []))) = []
   \<and> handle_loop env_refuses_z cfg_example (canonicalBasePath (path cfg_example))
          [img_example ''a.png''] []
       = (Continue, [img_uploaded ''a.png'' ''jwt.GET''],
          snd (snd (handle env_refuses_z (ctx_example [img_example ''a.png'']) [])))
   \<and> fst (generateJWT env_refuses_z cfg_example ''z.png'' True
          (snd (snd (handle env_refuses_z (ctx_example [img_example ''a.png'']) [])))) = []
   \<and> fst (handle env_refuses_z
          (ctx_example [img_example ''a.png'', img_example ''z.png'', img_example ''c.png'']) [])
       = ResolvedFalse
   \<and> fst (snd (handle env_refuses_z
          (ctx_example [img_example ''a.png'', img_example ''z.png'', img_example ''c.png'']) []))
       = [img_uploaded ''a.png'' ''jwt.GET'', img_example ''z.png'', img_example ''c.png'']
   \<and> map requestName (requestsOf (snd (snd (handle env_refuses_z
          (ctx_example [img_example ''a.png'', img_example ''z.png'', img_example ''c.png''])
          [])))) = [''a.png'']"
proof -
  have h1: "lastSigned (snd (generateJWT env_no_sign cfg_example ''a.png'' True []))
     = Some (upload_payload_example ''a.png'', ''secret'', sign_options_example)"
    by code_simp
  have h2: "jwt_sign env_no_sign (length ([] :: world) + 2) (upload_payload_example ''a.png'')
        ''secret'' sign_options_example = None"
    by code_simp
  have h3: "getConfig (ctx_example [img_example ''a.png'', img_example ''b.png'']) = Some cfg_example
     \<and> ctx_output (ctx_example [img_example ''a.png'', img_example ''b.png''])
         = [] @ img_example ''a.png'' # [img_example ''b.png'']
     \<and> handle_loop env_no_sign cfg_example (canonicalBasePath (path cfg_example)) [] []
         = (Continue, [], [])
     \<and> fileName (img_example ''a.png'') = Some ''a.png'' \<and> ''a.png'' \<noteq> []
     \<and> buffer (img_example ''a.png'') = Some [1, 2, 3]"
    by (simp add: ctx_example_def img_example_def)
  have h4: "\<forall>k pl secret opts. jwt_sign env_no_sign k pl secret opts = None"
    by (simp add: env_no_sign_def)
  note T = signing_failure_stops_the_batch
    [where E = env_no_sign and cfg = cfg_example and itemPath = "''a.png''" and upload = True
       and ?w0.0 = "[]" and pl = "upload_payload_example ''a.png''" and secret = "''secret''"
       and opts = sign_options_example
       and ctx = "ctx_example [img_example ''a.png'', img_example ''b.png'']"
       and pre = "[]" and img = "img_example ''a.png''" and post = "[img_example ''b.png'']"
       and w = "[]" and pre' = "[]" and ?w1.0 = "[]" and name = "''a.png''" and b = "[1, 2, 3]"]
  from T h1 h2 h3 h4 have c1: "fst (generateJWT env_no_sign cfg_example ''a.png'' True []) = []"
    and c2: "handle env_no_sign (ctx_example [img_example ''a.png'', img_example ''b.png'']) []
       = (ResolvedFalse, [img_example ''a.png'', img_example ''b.png''],
          snd (generateJWT env_no_sign cfg_example ''a.png'' True []))"
    and c3: "requestsOf (snd (snd (handle env_no_sign
          (ctx_example [img_example ''a.png'', img_example ''b.png'']) []))) = []"
    by simp_all
  have g1: "handle_loop env_refuses_z cfg_example (canonicalBasePath (path cfg_example))
          [img_example ''a.png''] []
       = (Continue, [img_uploaded ''a.png'' ''jwt.GET''],
          snd (snd (handle env_refuses_z (ctx_example [img_example ''a.png'']) [])))"
    by code_simp
  have g2: "fst (generateJWT env_refuses_z cfg_example ''z.png'' True
          (snd (snd (handle env_refuses_z (ctx_example [img_example ''a.png'']) [])))) = []"
    by code_simp
  have g3: "getConfig (ctx_example [img_example ''a.png'', img_example ''z.png'', img_example ''c.png''])
       = Some cfg_example
     \<and> ctx_output (ctx_example [img_example ''a.png'', img_example ''z.png'', img_example ''c.png''])
         = [img_example ''a.png''] @ img_example ''z.png'' # [img_example ''c.png'']
     \<and> fileName (img_example ''z.png'') = Some ''z.png'' \<and> ''z.png'' \<noteq> []
     \<and> buffer (img_example ''z.png'') = Some [1, 2, 3]"
    by (simp add: ctx_example_def img_example_def)
  note U = signing_failure_stops_the_batch
    [where E = env_refuses_z and cfg = cfg_example
       and ctx = "ctx_example [img_example ''a.png'', img_example ''z.png'', img_example ''c.png'']"
       and pre = "[img_example ''a.png'']" and img = "img_example ''z.png''"
       and post = "[img_example ''c.png'']" and w = "[]"
       and pre' = "[img_uploaded ''a.png'' ''jwt.GET'']"
       and ?w1.0 = "snd (snd (handle env_refuses_z (ctx_example [img_example ''a.png'']) []))"
       and name = "''z.png''" and b = "[1, 2, 3]"]
  from U g1 g2 g3 have d: "handle env_refuses_z
        (ctx_example [img_example ''a.png'', img_example ''z.png'', img_example ''c.png'']) []
       = (ResolvedFalse,
          [img_uploaded ''a.png'' ''jwt.GET''] @ img_example ''z.png'' # [img_example ''c.png''],
          snd (generateJWT env_refuses_z cfg_example ''z.png'' True
                 (snd (snd (handle env_refuses_z (ctx_example [img_example ''a.png'']) [])))))
     \<and> requestsOf (snd (generateJWT env_refuses_z cfg_example ''z.png'' True
                 (snd (snd (handle env_refuses_z (ctx_example [img_example ''a.png'']) [])))))
        = requestsOf (snd (snd (handle env_refuses_z (ctx_example [img_example ''a.png'']) [])))"
    by simp
  have g4: "map requestName (requestsOf
       (snd (snd (handle env_refuses_z (ctx_example [img_example ''a.png'']) [])))) = [''a.png'']"
    by code_simp
  from h1 h2 c1 c2 c3 g1 g2 d g4 show ?thesis by simp
qed

text \<open>
  Claim C6, as the code has it. When the loop reaches an image that passes the
  guard, its upload token is not empty, the request descriptor is built and the
  transport answers with status 201, the round ends normally with
  \<^verbatim>\<open>base64Image\<close> and \<^verbatim>\<open>buffer\<close> deleted and \<^verbatim>\<open>imgUrl\<close> set to the
  endpoint, \<^verbatim>\<open>/api/image/\<close>, the base path of line 77, a slash, the file name with
  its backslashes replaced, a question mark and the printed search parameters,
  which are the parsed default options with \<^verbatim>\<open>token\<close> set to the retrieval token
  issued after the response: exactly one pair is named \<^verbatim>\<open>token\<close> and the other
  pairs are the parsed ones. The image keeps this state whatever happens to the
  later images of the batch. The file-name segment is the file name with every
  backslash turned into a slash and every other character kept. The base-path
  segment has no backslash; it is in canonical form when the configured path, after
  the replacement of its backslashes, has at most one slash at each end, and not
  for every configured path.
\<close>

theorem created_item_gets_retrieval_url:
  assumes "getConfig ctx = Some cfg" and "ctx_output ctx = pre @ img # post"
    and "handle_loop E cfg (canonicalBasePath (path cfg)) pre w = (Continue, pre', w1)"
    and "fileName img = Some name" and "name \<noteq> []" and "buffer img = Some b"
    and "generateJWT E cfg name True w1 = (jwtToken, w2)" and "jwtToken \<noteq> []"
    and "postOptions E cfg name jwtToken (Some b) = Inr options"
    and "ctx_request E (length w2) options = Inr res" and "statusCode res = 201"
    and "generateJWT E cfg name False (w2 @ [CtxRequest options]) = (visitJwt, w3)"
  shows "handle_img E cfg (canonicalBasePath (path cfg)) img w1 =
       (Continue,
        img\<lparr>base64Image := None, buffer := None,
            imgUrl := Some (endpoint cfg @ ''/api/image/'' @ canonicalBasePath (path cfg) @ ''/''
                            @ replaceBackslashes name @ ''?''
                            @ usp_toString E
                                (usp_set ''token'' visitJwt (usp_parse E (defaultOptions cfg))))\<rparr>,
        w3)
     \<and> handle E ctx w =
       (case handle_loop E cfg (canonicalBasePath (path cfg)) post w3 of
          (r, post', w4) \<Rightarrow>
            (settle r,
             pre' @ img\<lparr>base64Image := None, buffer := None,
                 imgUrl := Some (endpoint cfg @ ''/api/image/'' @ canonicalBasePath (path cfg)
                            @ ''/'' @ replaceBackslashes name @ ''?''
                            @ usp_toString E
                                (usp_set ''token'' visitJwt
                                   (usp_parse E (defaultOptions cfg))))\<rparr> # post',
             w4))
     \<and> filter (\<lambda>kv. fst kv = ''token'')
          (usp_set ''token'' visitJwt (usp_parse E (defaultOptions cfg))) = [(''token'', visitJwt)]
     \<and> filter (\<lambda>kv. fst kv \<noteq> ''token'')
          (usp_set ''token'' visitJwt (usp_parse E (defaultOptions cfg)))
         = filter (\<lambda>kv. fst kv \<noteq> ''token'') (usp_parse E (defaultOptions cfg))
     \<and> CHR 0x5C \<notin> set (replaceBackslashes name)
     \<and> length (replaceBackslashes name) = length name
     \<and> (\<forall>i < length name. replaceBackslashes name ! i
            = (if name ! i = CHR 0x5C then CHR ''/'' else name ! i))
     \<and> CHR 0x5C \<notin> set (canonicalBasePath (path cfg))
     \<and> (take 2 (replaceBackslashes (path cfg)) \<noteq> ''//''
          \<and> take 2 (rev (replaceBackslashes (path cfg))) \<noteq> ''//''
          \<longrightarrow> canonicalPath (canonicalBasePath (path cfg)))"
proof -
  have step: "handle_img E cfg (canonicalBasePath (path cfg)) img w1 =
       (Continue,
        img\<lparr>base64Image := None, buffer := None,
            imgUrl := Some (endpoint cfg @ ''/api/image/'' @ canonicalBasePath (path cfg) @ ''/''
                            @ replaceBackslashes name @ ''?''
                            @ usp_toString E
                                (usp_set ''token'' visitJwt (usp_parse E (defaultOptions cfg))))\<rparr>,
        w3)"
    using handle_img_created [OF assms(4-11), of "canonicalBasePath (path cfg)"] assms(12)
    by simp
  have name: "\<forall>i < length name. replaceBackslashes name ! i
            = (if name ! i = CHR 0x5C then CHR ''/'' else name ! i)"
    by (simp add: replaceBackslashes_def)
  have single: "take 2 (replaceBackslashes (path cfg)) \<noteq> ''//''
          \<and> take 2 (rev (replaceBackslashes (path cfg))) \<noteq> ''//''
          \<longrightarrow> canonicalPath (canonicalBasePath (path cfg))"
    using canonicalBasePath_single_slashes [of "path cfg"] by (intro impI) (elim conjE)
  show ?thesis
    by (intro conjI)
      (rule step, rule handle_at_continue [OF assms(1-3) step], rule usp_set_token,
        rule usp_set_others, rule replaceBackslashes_free, rule length_replaceBackslashes,
        rule name, rule canonicalBasePath_free, rule single)
qed

theorem created_item_gets_retrieval_url_witness:
  "postOptions env_example cfg_example (''x'' @ [CHR 0x5C] @ ''a.png'') ''jwt.POST'' (Some [1, 2, 3])
     = Inr request_nested_example
   \<and> ctx_request env_example
        (length (snd (generateJWT env_example cfg_example (''x'' @ [CHR 0x5C] @ ''a.png'') True [])))
        request_nested_example
     = Inr \<lparr>statusCode = 201, body = BodyString []\<rparr>
   \<and> take 2 (replaceBackslashes (path cfg_example)) \<noteq> ''//''
   \<and> take 2 (rev (replaceBackslashes (path cfg_example))) \<noteq> ''//''
   \<and> canonicalPath (canonicalBasePath (path cfg_example))
   \<and> fst (handle_img env_example cfg_example (canonicalBasePath (path cfg_example))
           img_nested_example [])
     = Continue
   \<and> fst (snd (handle_img env_example cfg_example (canonicalBasePath (path cfg_example))
           img_nested_example []))
     = \<lparr>fileName = Some (''x'' @ [CHR 0x5C] @ ''a.png''), buffer = None, base64Image = None,
        imgUrl = Some ''https://goflet.example.com/api/image/img/x/a.png?w=100&token=jwt.GET''\<rparr>
   \<and> fst (snd (handle env_example (ctx_example [img_nested_example, img_example ''b.png'']) []))
     = [\<lparr>fileName = Some (''x'' @ [CHR 0x5C] @ ''a.png''), buffer = None, base64Image = None,
         imgUrl = Some ''https://goflet.example.com/api/image/img/x/a.png?w=100&token=jwt.GET''\<rparr>,
        img_example ''b.png'']"
proof -
  let ?p = "canonicalBasePath (path cfg_example)"
  let ?n = "''x'' @ [CHR 0x5C] @ ''a.png''"
  let ?w2 = "snd (generateJWT env_example cfg_example ?n True [])"
  let ?w3 = "snd (generateJWT env_example cfg_example ?n False
                    (?w2 @ [CtxRequest request_nested_example]))"
  have h1: "getConfig (ctx_example [img_nested_example, img_example ''b.png'']) = Some cfg_example"
    and h2: "ctx_output (ctx_example [img_nested_example, img_example ''b.png''])
       = [] @ img_nested_example # [img_example ''b.png'']"
    and h3: "handle_loop env_example cfg_example ?p [] [] = (Continue, [], [])"
    and h4: "fileName img_nested_example = Some ?n"
    and h5: "?n \<noteq> []"
    and h6: "buffer img_nested_example = Some [1, 2, 3]"
    by (simp_all add: ctx_example_def img_nested_example_def)
  have h7: "generateJWT env_example cfg_example ?n True [] = (''jwt.POST'', ?w2)"
    by code_simp
  have h8: "''jwt.POST'' \<noteq> []"
    by simp
  have h9: "postOptions env_example cfg_example ?n ''jwt.POST'' (Some [1, 2, 3])
     = Inr request_nested_example"
    by code_simp
  have h10: "ctx_request env_example (length ?w2) request_nested_example
     = Inr \<lparr>statusCode = 201, body = BodyString []\<rparr>"
    by code_simp
  have h11: "statusCode \<lparr>statusCode = 201, body = BodyString []\<rparr> = 201"
    by simp
  have h12: "generateJWT env_example cfg_example ?n False
               (?w2 @ [CtxRequest request_nested_example]) = (''jwt.GET'', ?w3)"
    by code_simp
  note T = created_item_gets_retrieval_url [OF h1 h2 h3 h4 h5 h6 h7 h8 h9 h10 h11 h12]
  have s1: "take 2 (replaceBackslashes (path cfg_example)) \<noteq> ''//''"
    and s2: "take 2 (rev (replaceBackslashes (path cfg_example))) \<noteq> ''//''"
    by code_simp+
  have fin: "img_nested_example\<lparr>base64Image := None, buffer := None,
            imgUrl := Some (endpoint cfg_example @ ''/api/image/'' @ ?p @ ''/''
                            @ replaceBackslashes ?n @ ''?''
                            @ usp_toString env_example
                                (usp_set ''token'' ''jwt.GET''
                                   (usp_parse env_example (defaultOptions cfg_example))))\<rparr>
      = \<lparr>fileName = Some ?n, buffer = None, base64Image = None,
         imgUrl = Some ''https://goflet.example.com/api/image/img/x/a.png?w=100&token=jwt.GET''\<rparr>"
    by code_simp
  have rest: "fst (snd (handle_loop env_example cfg_example ?p [img_example ''b.png''] ?w3))
      = [img_example ''b.png'']"
    by code_simp
  from T s1 s2 have c: "canonicalPath ?p"
    by simp
  from T h9 h10 s1 s2 c fin rest show ?thesis
    by (simp add: case_prod_beta)
qed

text \<open>
  For the configured path \<^verbatim>\<open>//img//\<close> the base path of line 77 is \<^verbatim>\<open>/img/\<close>,
  which starts and ends with a slash, and the retrieval URL holds
  \<^verbatim>\<open>/api/image//img//a.png\<close>.
\<close>

theorem retrieval_url_keeps_extra_slashes:
  "canonicalBasePath (path cfg_slashes) = ''/img/''
   \<and> take 1 (canonicalBasePath (path cfg_slashes)) = ''/''
   \<and> take 1 (rev (canonicalBasePath (path cfg_slashes))) = ''/''
   \<and> handle env_example \<lparr>getConfig = Some cfg_slashes, ctx_output = [img_example ''a.png'']\<rparr> []
      = (ResolvedCtx,
         [\<lparr>fileName = Some ''a.png'', buffer = None, base64Image = None,
           imgUrl = Some ''https://goflet.example.com/api/image//img//a.png?w=100&token=jwt.GET''\<rparr>],
         snd (snd (handle env_example
            \<lparr>getConfig = Some cfg_slashes, ctx_output = [img_example ''a.png'']\<rparr> [])))"
  by code_simp

text \<open>
  Claim C10. Under the same conditions, when the signing call for the retrieval
  token throws, the round still ends normally: the payload fields are deleted, the
  URL is assigned with \<^verbatim>\<open>token\<close> set to the empty string, and the loop goes on
  with the later images.
\<close>

theorem retrieval_token_failure_is_not_fatal:
  assumes "getConfig ctx = Some cfg" and "ctx_output ctx = pre @ img # post"
    and "handle_loop E cfg (canonicalBasePath (path cfg)) pre w = (Continue, pre', w1)"
    and "fileName img = Some name" and "name \<noteq> []" and "buffer img = Some b"
    and "generateJWT E cfg name True w1 = (jwtToken, w2)" and "jwtToken \<noteq> []"
    and "postOptions E cfg name jwtToken (Some b) = Inr options"
    and "ctx_request E (length w2) options = Inr res" and "statusCode res = 201"
    and "lastSigned (snd (generateJWT E cfg name False (w2 @ [CtxRequest options])))
           = Some (pl, secret, opts)"
    and "jwt_sign E (length (w2 @ [CtxRequest options]) + 2) pl secret opts = None"
  shows "handle_img E cfg (canonicalBasePath (path cfg)) img w1 =
       (Continue,
        img\<lparr>base64Image := None, buffer := None,
            imgUrl := Some (endpoint cfg @ ''/api/image/'' @ canonicalBasePath (path cfg) @ ''/''
                            @ replaceBackslashes name @ ''?''
                            @ usp_toString E
                                (usp_set ''token'' [] (usp_parse E (defaultOptions cfg))))\<rparr>,
        snd (generateJWT E cfg name False (w2 @ [CtxRequest options])))
     \<and> handle E ctx w =
       (case handle_loop E cfg (canonicalBasePath (path cfg)) post
               (snd (generateJWT E cfg name False (w2 @ [CtxRequest options]))) of
          (r, post', w4) \<Rightarrow>
            (settle r,
             pre' @ img\<lparr>base64Image := None, buffer := None,
                 imgUrl := Some (endpoint cfg @ ''/api/image/'' @ canonicalBasePath (path cfg)
                            @ ''/'' @ replaceBackslashes name @ ''?''
                            @ usp_toString E
                                (usp_set ''token'' [] (usp_parse E (defaultOptions cfg))))\<rparr> # post',
             w4))
     \<and> filter (\<lambda>kv. fst kv = ''token'')
          (usp_set ''token'' [] (usp_parse E (defaultOptions cfg))) = [(''token'', [])]"
proof -
  have tok: "fst (generateJWT E cfg name False (w2 @ [CtxRequest options])) = []"
    using assms(12,13) by (rule generateJWT_raise)
  have step: "handle_img E cfg (canonicalBasePath (path cfg)) img w1 =
       (Continue,
        img\<lparr>base64Image := None, buffer := None,
            imgUrl := Some (endpoint cfg @ ''/api/image/'' @ canonicalBasePath (path cfg) @ ''/''
                            @ replaceBackslashes name @ ''?''
                            @ usp_toString E
                                (usp_set ''token'' [] (usp_parse E (defaultOptions cfg))))\<rparr>,
        snd (generateJWT E cfg name False (w2 @ [CtxRequest options])))"
    using handle_img_created [OF assms(4-11), of "canonicalBasePath (path cfg)"] tok
    by simp
  from handle_at_continue [OF assms(1-3) step] step usp_set_token
  show ?thesis by blast
qed

theorem retrieval_token_failure_is_not_fatal_witness:
  "lastSigned (snd (generateJWT env_upload_only cfg_example ''a.png'' False
       (snd (generateJWT env_upload_only cfg_example ''a.png'' True [])
        @ [CtxRequest (request_example ''a.png'')])))
     = Some (visit_payload_example ''a.png'', ''secret'', sign_options_example)
   \<and> jwt_sign env_upload_only
        (length (snd (generateJWT env_upload_only cfg_example ''a.png'' True [])
                 @ [CtxRequest (request_example ''a.png'')]) + 2)
        (visit_payload_example ''a.png'') ''secret'' sign_options_example = None
   \<and> fst (handle_img env_upload_only cfg_example (canonicalBasePath (path cfg_example))
           (img_example ''a.png'') [])
     = Continue
   \<and> fst (snd (handle_img env_upload_only cfg_example (canonicalBasePath (path cfg_example))
           (img_example ''a.png'') []))
     = img_uploaded ''a.png'' []
   \<and> fst (handle env_upload_only
          (ctx_example [img_example ''a.png'', img_example ''e.png'']) [])
     = ResolvedCtx
   \<and> fst (snd (handle env_upload_only
          (ctx_example [img_example ''a.png'', img_example ''e.png'']) []))
     = [img_uploaded ''a.png'' [], img_uploaded ''e.png'' []]"
proof -
  let ?p = "canonicalBasePath (path cfg_example)"
  let ?w2 = "snd (generateJWT env_upload_only cfg_example ''a.png'' True [])"
  let ?w3 = "snd (generateJWT env_upload_only cfg_example ''a.png'' False
                    (?w2 @ [CtxRequest (request_example ''a.png'')]))"
  have h1: "getConfig (ctx_example [img_example ''a.png'', img_example ''e.png'']) = Some cfg_example"
    and h2: "ctx_output (ctx_example [img_example ''a.png'', img_example ''e.png''])
       = [] @ img_example ''a.png'' # [img_example ''e.png'']"
    and h3: "handle_loop env_upload_only cfg_example ?p [] [] = (Continue, [], [])"
    and h4: "fileName (img_example ''a.png'') = Some ''a.png''"
    and h5: "''a.png'' \<noteq> []"
    and h6: "buffer (img_example ''a.png'') = Some [1, 2, 3]"
    by (simp_all add: ctx_example_def img_example_def)
  have h7: "generateJWT env_upload_only cfg_example ''a.png'' True [] = (''jwt.POST'', ?w2)"
    by code_simp
  have h8: "''jwt.POST'' \<noteq> []"
    by simp
  have h9: "postOptions env_upload_only cfg_example ''a.png'' ''jwt.POST'' (Some [1, 2, 3])
     = Inr (request_example ''a.png'')"
    by code_simp
  have h10: "ctx_request env_upload_only (length ?w2) (request_example ''a.png'')
     = Inr \<lparr>statusCode = 201, body = BodyString []\<rparr>"
    by code_simp
  have h11: "statusCode \<lparr>statusCode = 201, body = BodyString []\<rparr> = 201"
    by simp
  have h12: "lastSigned ?w3
     = Some (visit_payload_example ''a.png'', ''secret'', sign_options_example)"
    by code_simp
  have h13: "jwt_sign env_upload_only
        (length (?w2 @ [CtxRequest (request_example ''a.png'')]) + 2)
        (visit_payload_example ''a.png'') ''secret'' sign_options_example = None"
    by code_simp
  note T = retrieval_token_failure_is_not_fatal
    [OF h1 h2 h3 h4 h5 h6 h7 h8 h9 h10 h11 h12 h13]
  have fin: "(img_example ''a.png'')\<lparr>base64Image := None, buffer := None,
            imgUrl := Some (endpoint cfg_example @ ''/api/image/'' @ ?p @ ''/''
                            @ replaceBackslashes ''a.png'' @ ''?''
                            @ usp_toString env_upload_only
                                (usp_set ''token'' []
                                   (usp_parse env_upload_only (defaultOptions cfg_example))))\<rparr>
      = img_uploaded ''a.png'' []"
    by code_simp
  have rest: "fst (handle_loop env_upload_only cfg_example ?p [img_example ''e.png''] ?w3)
      = Continue"
    and rest': "fst (snd (handle_loop env_upload_only cfg_example ?p [img_example ''e.png''] ?w3))
      = [img_uploaded ''e.png'' []]"
    by code_simp+
  from T h12 h13 fin rest rest' show ?thesis
    by (simp add: case_prod_beta)
qed



section \<open>Where the code departs from its description\<close>

text \<open>
  Claim C1. A response with status 400 whose body parses to an object with an
  \<^verbatim>\<open>error\<close> field makes line 105 throw an error carrying that field. The
  \<^verbatim>\<open>throw\<close> stands inside the \<^verbatim>\<open>try\<close> block, so the \<^verbatim>\<open>catch\<close> of lines
  119 to 121 takes it and throws the \<^verbatim>\<open>SERVER_ERROR\<close> message instead: for the
  gateway answer \<^verbatim>\<open>{"error":"bad signature"}\<close> the \<^verbatim>\<open>try\<close> block throws
  \<^verbatim>\<open>bad signature\<close> and \<^verbatim>\<open>handle\<close> rejects with \<^verbatim>\<open>Server error\<close>.
\<close>

theorem server_supplied_message_is_replaced:
  \<open>ctx_request env_example 3 (request_example ''b.png'')
     = Inr \<lparr>statusCode = 400, body = BodyString ''{"error":"bad signature"}''\<rparr>
   \<and> try_block env_example cfg_example ''img'' ''b.png''
        \<lparr>statusCode = 400, body = BodyString ''{"error":"bad signature"}''\<rparr>
        (img_example ''b.png'') []
     = Inl (Error ''bad signature'')
   \<and> requestsOf (snd (snd (handle env_example (ctx_example [img_example ''b.png'']) [])))
     = [request_example ''b.png'']
   \<and> fst (handle env_example (ctx_example [img_example ''b.png'']) [])
     = RejectedWith (Error ''Server error'')\<close>
  by code_simp

text \<open>
  Claim C5. A rejection of the transport is turned into a made-up response with
  status 400 whose body is an object holding the \<^verbatim>\<open>AUTH_FAILED\<close> message. Line
  104 hands that object to \<^verbatim>\<open>JSON.parse\<close>, which throws, and the \<^verbatim>\<open>catch\<close>
  of lines 119 to 121 throws the \<^verbatim>\<open>SERVER_ERROR\<close> message: \<^verbatim>\<open>handle\<close> rejects
  with \<^verbatim>\<open>Server error\<close>, not with \<^verbatim>\<open>Auth failed\<close>.
\<close>

theorem transport_exception_reports_server_error:
  "ctx_request env_example 3 (request_example ''c.png'') = Inl (Rejected ''ECONNRESET'')
   \<and> fst (await_request env_example (request_example ''c.png'')
            (snd (generateJWT env_example cfg_example ''c.png'' True [])))
     = \<lparr>statusCode = 400, body = BodyObject ''Auth failed'' (Rejected ''ECONNRESET'')\<rparr>
   \<and> try_block env_example cfg_example ''img'' ''c.png''
        \<lparr>statusCode = 400, body = BodyObject ''Auth failed'' (Rejected ''ECONNRESET'')\<rparr>
        (img_example ''c.png'') []
     = Inl SyntaxError
   \<and> requestsOf (snd (snd (handle env_example (ctx_example [img_example ''c.png'']) [])))
     = [request_example ''c.png'']
   \<and> translate env_example AUTH_FAILED = ''Auth failed''
   \<and> fst (handle env_example (ctx_example [img_example ''c.png'']) [])
     = RejectedWith (Error ''Server error'')"
  by code_simp

text \<open>
  Claim C2. The guard of line 79 asks for a file name and a buffer, so an image
  that has a file name and a base64 string but no buffer is skipped: \<^verbatim>\<open>handle\<close>
  resolves to \<^verbatim>\<open>ctx\<close> with the image unchanged and no effect at all, and the
  decoding of lines 86 to 88 is never reached. An image with a buffer is uploaded
  with that buffer as the file value.
\<close>

theorem base64_only_item_is_skipped:
  "handle env_example (ctx_example [img_base64_only]) [] = (ResolvedCtx, [img_base64_only], [])
   \<and> map (file_value \<circ> formData_file)
        (requestsOf (snd (snd (handle env_example (ctx_example [img_example ''a.png'']) []))))
     = [buffer (img_example ''a.png'')]"
  by code_simp

end
